theory Spec2Isabelle
  imports Main "HOL-Library.Sublist"
begin

section \<open>The RSA digital signature walkthrough\<close>

text \<open>
  The repository is one linear script, \<^verbatim>\<open>firma_digital_rsa/firma_rsa.py\<close>. It generates an
  RSA key pair, signs a fixed message, verifies the signature against the message and against
  an altered message, and narrates every step on standard output. All cryptography is done
  by the \<^verbatim>\<open>cryptography\<close> package, which is not part of the repository: here it is a
  parameter, a record of the four entry points the script calls, each of which either returns
  a value or raises.
\<close>

subsection \<open>Values of the library interface\<close>

text \<open>Python \<^verbatim>\<open>bytes\<close>: an immutable sequence of bytes.\<close>

type_synonym bytes = string

text \<open>
  \<^verbatim>\<open>hashes.SHA256()\<close>, \<^verbatim>\<open>padding.MGF1(...)\<close>, \<^verbatim>\<open>padding.PSS.MAX_LENGTH\<close> and
  \<^verbatim>\<open>padding.PSS(mgf=..., salt_length=...)\<close>, the only scheme objects the script builds.
\<close>

datatype hash_algorithm = SHA256

datatype mask_generation = MGF1 hash_algorithm

datatype salt_length = MAX_LENGTH

datatype padding = PSS mask_generation salt_length

subsection \<open>Exceptions\<close>

text \<open>
  The classes of the objects a call can raise. \<^verbatim>\<open>InvalidSignature\<close> and
  \<^verbatim>\<open>UnsupportedAlgorithm\<close> are the library's (\<^verbatim>\<open>cryptography.exceptions\<close>), the others are
  built in. In Python's hierarchy \<^verbatim>\<open>KeyboardInterrupt\<close> and \<^verbatim>\<open>SystemExit\<close> derive from
  \<^verbatim>\<open>BaseException\<close> directly; every other class listed derives from \<^verbatim>\<open>Exception\<close>.
\<close>

datatype exception_class =
    InvalidSignature
  | UnsupportedAlgorithm
  | ValueError
  | TypeError
  | NameError
  | KeyboardInterrupt
  | SystemExit

fun issubclass_Exception :: "exception_class \<Rightarrow> bool" where
  "issubclass_Exception KeyboardInterrupt = False"
| "issubclass_Exception SystemExit = False"
| "issubclass_Exception _ = True"

text \<open>A raised object: its class and the text \<^verbatim>\<open>str(e)\<close> that an f-string shows for it.\<close>

datatype raised = Raised (class_of: exception_class) (str_of: string)

subsection \<open>The library as a parameter\<close>

text \<open>
  \<^verbatim>\<open>rsa.generate_private_key(public_exponent, key_size, backend)\<close>,
  \<^verbatim>\<open>private_key.public_key()\<close>, \<^verbatim>\<open>private_key.sign(data, padding, algorithm)\<close> and
  \<^verbatim>\<open>public_key.verify(signature, data, padding, algorithm)\<close>. \<open>Inl\<close> is a raise, \<open>Inr\<close> a
  return; \<^verbatim>\<open>verify\<close> returns \<^verbatim>\<open>None\<close> when the signature is valid and raises otherwise.
  The key objects are opaque: \<open>'priv\<close> and \<open>'pub\<close>. The script always passes
  \<^verbatim>\<open>backend=default_backend()\<close> to the generator; that fixed argument is left out.
\<close>

record ('priv, 'pub) cryptography =
  rsa_generate_private_key :: "int \<Rightarrow> int \<Rightarrow> raised + 'priv"
  key_public_key :: "'priv \<Rightarrow> raised + 'pub"
  key_sign :: "'priv \<Rightarrow> bytes \<Rightarrow> padding \<Rightarrow> hash_algorithm \<Rightarrow> raised + bytes"
  key_verify :: "'pub \<Rightarrow> bytes \<Rightarrow> bytes \<Rightarrow> padding \<Rightarrow> hash_algorithm \<Rightarrow> raised + unit"

text \<open>The library calls a run makes, with their arguments, in the order they are made.\<close>

datatype ('priv, 'pub) call =
    Generate_private_key int int
  | Public_key 'priv
  | Sign 'priv bytes padding hash_algorithm
  | Verify 'pub bytes bytes padding hash_algorithm

fun is_generate :: "('priv, 'pub) call \<Rightarrow> bool" where
  "is_generate (Generate_private_key e n) = True"
| "is_generate _ = False"

subsection \<open>Standard output\<close>

text \<open>
  One constructor for each \<^verbatim>\<open>print\<close> of the script, in source order (lines 22, 36, 41,
  59, 75, 77, 82, 95, 98, 99 and 101), carrying the values its f-string interpolates. The
  fixed text of a line is named by its constructor. For the two message lines the argument
  is the byte string whose \<^verbatim>\<open>decode()\<close> is shown; both literals are ASCII, so decoding
  cannot fail and changes nothing.
\<close>

datatype line =
    Iniciando
  | Par_de_claves_generado
  | Mensaje_original bytes
  | Firma_creada bytes
  | Firma_verificada
  | ERROR_firma_no_valida string
  | Intentando_alterado bytes
  | Advertencia_firma_valida
  | Alerta_firma_invalida
  | Error_especifico string
  | Proceso_completado

subsection \<open>The state of the run\<close>

text \<open>
  The module's global names (unbound until assigned), what has been printed, and the library
  calls made so far.
\<close>

record ('priv, 'pub) state =
  private_key :: "'priv option"
  public_key :: "'pub option"
  message :: "bytes option"
  signature :: "bytes option"
  message_alterado :: "bytes option"
  stdout :: "line list"
  calls :: "('priv, 'pub) call list"

definition initial :: "('priv, 'pub) state" where
  "initial = \<lparr>private_key = None, public_key = None, message = None, signature = None,
     message_alterado = None, stdout = [], calls = []\<rparr>"

text \<open>A statement either completes (\<open>Inr\<close>) or raises (\<open>Inl\<close>), and leaves a state.\<close>

type_synonym ('a, 'priv, 'pub) prog =
  "('priv, 'pub) state \<Rightarrow> (raised + 'a) \<times> ('priv, 'pub) state"

definition then_do ::
  "('a, 'priv, 'pub) prog \<Rightarrow> ('a \<Rightarrow> ('b, 'priv, 'pub) prog) \<Rightarrow> ('b, 'priv, 'pub) prog" where
  "then_do m f s = (case m s of (Inl e, s') \<Rightarrow> (Inl e, s') | (Inr v, s') \<Rightarrow> f v s')"

definition print :: "line \<Rightarrow> (unit, 'priv, 'pub) prog" where
  "print l s = (Inr (), s\<lparr>stdout := stdout s @ [l]\<rparr>)"

text \<open>An assignment to a global name rebinds it.\<close>

definition assign ::
  "(('priv, 'pub) state \<Rightarrow> ('priv, 'pub) state) \<Rightarrow> (unit, 'priv, 'pub) prog" where
  "assign f s = (Inr (), f s)"

text \<open>
  Reading a global name; an unbound name raises \<^verbatim>\<open>NameError\<close>, whose text is
  \<^verbatim>\<open>name 'x' is not defined\<close> (\<open>CHR 0x27\<close> is the quote).
\<close>

definition load ::
  "(('priv, 'pub) state \<Rightarrow> 'a option) \<Rightarrow> string \<Rightarrow> ('a, 'priv, 'pub) prog" where
  "load var name s =
     (case var s of
        None \<Rightarrow>
          (Inl (Raised NameError
             (''name '' @ [CHR 0x27] @ name @ [CHR 0x27] @ '' is not defined'')), s)
      | Some v \<Rightarrow> (Inr v, s))"

text \<open>A library call: it is recorded, and its outcome is the statement's.\<close>

definition invoke :: "('priv, 'pub) call \<Rightarrow> raised + 'a \<Rightarrow> ('a, 'priv, 'pub) prog" where
  "invoke c r s = (r, s\<lparr>calls := calls s @ [c]\<rparr>)"

text \<open>
  \<^verbatim>\<open>try: body  except Exception as e: handler\<close>. The handler runs for a raised object whose
  class derives from \<^verbatim>\<open>Exception\<close>; any other raised object passes through.
\<close>

definition try_except_Exception ::
  "(unit, 'priv, 'pub) prog \<Rightarrow> (raised \<Rightarrow> (unit, 'priv, 'pub) prog) \<Rightarrow> (unit, 'priv, 'pub) prog" where
  "try_except_Exception body handler s =
     (case body s of
        (Inr v, s') \<Rightarrow> (Inr v, s')
      | (Inl e, s') \<Rightarrow>
          if issubclass_Exception (class_of e) then handler e s' else (Inl e, s'))"

subsection \<open>The script, step by step\<close>

text \<open>Lines 28 to 36: \<^verbatim>\<open>Paso 3\<close>, the key pair.\<close>

definition paso3_generar_claves ::
  "('priv, 'pub) cryptography \<Rightarrow> (unit, 'priv, 'pub) prog" where
  "paso3_generar_claves L =
     then_do (invoke (Generate_private_key 65537 2048) (rsa_generate_private_key L 65537 2048))
    (\<lambda>k. then_do (assign (\<lambda>s. s\<lparr>private_key := Some k\<rparr>))
    (\<lambda>_. then_do (load private_key ''private_key'')
    (\<lambda>priv. then_do (invoke (Public_key priv) (key_public_key L priv))
    (\<lambda>pk. then_do (assign (\<lambda>s. s\<lparr>public_key := Some pk\<rparr>))
    (\<lambda>_. print Par_de_claves_generado)))))"

text \<open>Lines 40 and 41: \<^verbatim>\<open>Paso 4\<close>, the message.\<close>

definition paso4_crear_mensaje :: "(unit, 'priv, 'pub) prog" where
  "paso4_crear_mensaje =
     then_do (assign (\<lambda>s.
       s\<lparr>message := Some ''Este es el mensaje que quiero firmar digitalmente.''\<rparr>))
    (\<lambda>_. then_do (load message ''message'')
    (\<lambda>m. print (Mensaje_original m)))"

text \<open>Lines 50 to 59: \<^verbatim>\<open>Paso 5\<close>, the signature and its preview \<^verbatim>\<open>signature[:30]\<close>.\<close>

definition paso5_firmar :: "('priv, 'pub) cryptography \<Rightarrow> (unit, 'priv, 'pub) prog" where
  "paso5_firmar L =
     then_do (load private_key ''private_key'')
    (\<lambda>priv. then_do (load message ''message'')
    (\<lambda>m. then_do (invoke (Sign priv m (PSS (MGF1 SHA256) MAX_LENGTH) SHA256)
                     (key_sign L priv m (PSS (MGF1 SHA256) MAX_LENGTH) SHA256))
    (\<lambda>sg. then_do (assign (\<lambda>s. s\<lparr>signature := Some sg\<rparr>))
    (\<lambda>_. then_do (load signature ''signature'')
    (\<lambda>sg'. print (Firma_creada (take 30 sg')))))))"

text \<open>
  Lines 65 to 77: \<^verbatim>\<open>Paso 6\<close>, verification against the original message. The callee
  \<^verbatim>\<open>public_key.verify\<close> is evaluated before its arguments.
\<close>

definition paso6_verificar :: "('priv, 'pub) cryptography \<Rightarrow> (unit, 'priv, 'pub) prog" where
  "paso6_verificar L =
     try_except_Exception
       (then_do (load public_key ''public_key'')
       (\<lambda>pk. then_do (load signature ''signature'')
       (\<lambda>sg. then_do (load message ''message'')
       (\<lambda>m. then_do (invoke (Verify pk sg m (PSS (MGF1 SHA256) MAX_LENGTH) SHA256)
                        (key_verify L pk sg m (PSS (MGF1 SHA256) MAX_LENGTH) SHA256))
       (\<lambda>_. print Firma_verificada)))))
       (\<lambda>e. print (ERROR_firma_no_valida (str_of e)))"

text \<open>Lines 84 to 99: the \<^verbatim>\<open>try\<close> statement of \<^verbatim>\<open>Paso 7\<close>.\<close>

definition verificar_alterado :: "('priv, 'pub) cryptography \<Rightarrow> (unit, 'priv, 'pub) prog" where
  "verificar_alterado L =
     try_except_Exception
       (then_do (load public_key ''public_key'')
       (\<lambda>pk. then_do (load signature ''signature'')
       (\<lambda>sg. then_do (load message_alterado ''message_alterado'')
       (\<lambda>m. then_do (invoke (Verify pk sg m (PSS (MGF1 SHA256) MAX_LENGTH) SHA256)
                        (key_verify L pk sg m (PSS (MGF1 SHA256) MAX_LENGTH) SHA256))
       (\<lambda>_. print Advertencia_firma_valida)))))
       (\<lambda>e. then_do (print Alerta_firma_invalida)
       (\<lambda>_. print (Error_especifico (str_of e))))"

text \<open>Lines 81 to 99: \<^verbatim>\<open>Paso 7\<close>, verification against the altered message.\<close>

definition paso7_manipulacion :: "('priv, 'pub) cryptography \<Rightarrow> (unit, 'priv, 'pub) prog" where
  "paso7_manipulacion L =
     then_do (assign (\<lambda>s. s\<lparr>message_alterado := Some ''Este es un mensaje modificado.''\<rparr>))
    (\<lambda>_. then_do (load message_alterado ''message_alterado'')
    (\<lambda>m. then_do (print (Intentando_alterado m))
    (\<lambda>_. verificar_alterado L)))"

text \<open>
  The whole module after its imports, lines 22 to 101. A result \<open>Inr ()\<close> is normal
  termination; \<open>Inl e\<close> is an uncaught \<open>e\<close>, which ends the process with a traceback.
\<close>

definition firma_rsa :: "('priv, 'pub) cryptography \<Rightarrow> (unit, 'priv, 'pub) prog" where
  "firma_rsa L =
     then_do (print Iniciando)
    (\<lambda>_. then_do (paso3_generar_claves L)
    (\<lambda>_. then_do paso4_crear_mensaje
    (\<lambda>_. then_do (paso5_firmar L)
    (\<lambda>_. then_do (paso6_verificar L)
    (\<lambda>_. then_do (paso7_manipulacion L)
    (\<lambda>_. print Proceso_completado))))))"

subsection \<open>Names for the script's literals\<close>

abbreviation texto_original :: bytes where
  "texto_original \<equiv> ''Este es el mensaje que quiero firmar digitalmente.''"

abbreviation texto_alterado :: bytes where
  "texto_alterado \<equiv> ''Este es un mensaje modificado.''"

abbreviation pss_max :: padding where
  "pss_max \<equiv> PSS (MGF1 SHA256) MAX_LENGTH"

subsection \<open>Four small libraries to run the script on\<close>

text \<open>
  Keys are numbers and every signature is 256 equal bytes. The first library accepts a
  signature only for the original message, and the second rejects every signature. In the
  third every \<^verbatim>\<open>verify\<close> is interrupted from the keyboard; in the fourth the
  verification of the original message returns and only the one of the altered message is
  interrupted.
\<close>

definition biblioteca_demo :: "(nat, nat) cryptography" where
  "biblioteca_demo =
     \<lparr>rsa_generate_private_key = (\<lambda>e n. Inr 7),
      key_public_key = (\<lambda>k. Inr (Suc k)),
      key_sign = (\<lambda>k m p h. Inr (replicate 256 (CHR ''s''))),
      key_verify = (\<lambda>pk sg m p h.
        if m = ''Este es el mensaje que quiero firmar digitalmente.''
        then Inr () else Inl (Raised InvalidSignature []))\<rparr>"

definition biblioteca_rechaza :: "(nat, nat) cryptography" where
  "biblioteca_rechaza =
     biblioteca_demo\<lparr>key_verify := (\<lambda>pk sg m p h. Inl (Raised InvalidSignature []))\<rparr>"

definition biblioteca_interrumpida :: "(nat, nat) cryptography" where
  "biblioteca_interrumpida =
     biblioteca_demo\<lparr>key_verify := (\<lambda>pk sg m p h. Inl (Raised KeyboardInterrupt []))\<rparr>"

definition biblioteca_interrumpida_al_final :: "(nat, nat) cryptography" where
  "biblioteca_interrumpida_al_final =
     biblioteca_demo\<lparr>key_verify := (\<lambda>pk sg m p h.
        if m = ''Este es el mensaje que quiero firmar digitalmente.''
        then Inr () else Inl (Raised KeyboardInterrupt []))\<rparr>"

text \<open>A state in which the names the verification steps read are bound.\<close>

definition estado_firmado :: "(nat, nat) state" where
  "estado_firmado =
     \<lparr>private_key = Some 7, public_key = Some 8, message = Some ''hola'',
      signature = Some ''firma'', message_alterado = Some ''adios'', stdout = [], calls = []\<rparr>"

section \<open>What each step does\<close>

lemmas prog_defs = try_except_Exception_def then_do_def load_def invoke_def print_def assign_def

lemma paso3_generar_claves_eq:
  "paso3_generar_claves L s =
     (case rsa_generate_private_key L 65537 2048 of
        Inl e \<Rightarrow> (Inl e, s\<lparr>calls := calls s @ [Generate_private_key 65537 2048]\<rparr>)
      | Inr k \<Rightarrow>
          (case key_public_key L k of
             Inl e \<Rightarrow> (Inl e, s\<lparr>private_key := Some k,
                 calls := calls s @ [Generate_private_key 65537 2048, Public_key k]\<rparr>)
           | Inr pk \<Rightarrow> (Inr (), s\<lparr>private_key := Some k, public_key := Some pk,
                 stdout := stdout s @ [Par_de_claves_generado],
                 calls := calls s @ [Generate_private_key 65537 2048, Public_key k]\<rparr>)))"
  by (simp add: paso3_generar_claves_def prog_defs split: sum.splits)

lemma paso4_crear_mensaje_eq:
  "paso4_crear_mensaje s =
     (Inr (), s\<lparr>message := Some texto_original,
        stdout := stdout s @ [Mensaje_original texto_original]\<rparr>)"
  by (simp add: paso4_crear_mensaje_def prog_defs)

lemma paso5_firmar_eq:
  assumes "private_key s = Some priv" and "message s = Some m"
  shows "paso5_firmar L s =
     (case key_sign L priv m pss_max SHA256 of
        Inl e \<Rightarrow> (Inl e, s\<lparr>calls := calls s @ [Sign priv m pss_max SHA256]\<rparr>)
      | Inr sg \<Rightarrow> (Inr (), s\<lparr>signature := Some sg,
            stdout := stdout s @ [Firma_creada (take 30 sg)],
            calls := calls s @ [Sign priv m pss_max SHA256]\<rparr>))"
  using assms by (simp add: paso5_firmar_def prog_defs split: sum.splits)

lemma paso6_verificar_eq:
  assumes "public_key s = Some pk" and "signature s = Some sg" and "message s = Some m"
  shows "paso6_verificar L s =
     (case key_verify L pk sg m pss_max SHA256 of
        Inr u \<Rightarrow> (Inr (), s\<lparr>stdout := stdout s @ [Firma_verificada],
            calls := calls s @ [Verify pk sg m pss_max SHA256]\<rparr>)
      | Inl e \<Rightarrow>
          if issubclass_Exception (class_of e)
          then (Inr (), s\<lparr>stdout := stdout s @ [ERROR_firma_no_valida (str_of e)],
            calls := calls s @ [Verify pk sg m pss_max SHA256]\<rparr>)
          else (Inl e, s\<lparr>calls := calls s @ [Verify pk sg m pss_max SHA256]\<rparr>))"
  using assms by (simp add: paso6_verificar_def prog_defs split: sum.splits)

lemma verificar_alterado_eq:
  assumes "public_key s = Some pk" and "signature s = Some sg"
    and "message_alterado s = Some m"
  shows "verificar_alterado L s =
     (case key_verify L pk sg m pss_max SHA256 of
        Inr u \<Rightarrow> (Inr (), s\<lparr>stdout := stdout s @ [Advertencia_firma_valida],
            calls := calls s @ [Verify pk sg m pss_max SHA256]\<rparr>)
      | Inl e \<Rightarrow>
          if issubclass_Exception (class_of e)
          then (Inr (), s\<lparr>stdout := stdout s @
              [Alerta_firma_invalida, Error_especifico (str_of e)],
            calls := calls s @ [Verify pk sg m pss_max SHA256]\<rparr>)
          else (Inl e, s\<lparr>calls := calls s @ [Verify pk sg m pss_max SHA256]\<rparr>))"
  using assms by (simp add: verificar_alterado_def prog_defs split: sum.splits)

lemma paso7_manipulacion_eq:
  "paso7_manipulacion L s =
     verificar_alterado L
       (s\<lparr>message_alterado := Some texto_alterado,
          stdout := stdout s @ [Intentando_alterado texto_alterado]\<rparr>)"
  by (simp add: paso7_manipulacion_def then_do_def load_def print_def assign_def)

text \<open>The run up to the signature, when key generation and signing return.\<close>

lemma firma_rsa_signed:
  assumes "rsa_generate_private_key L 65537 2048 = Inr priv"
    and "key_public_key L priv = Inr pk"
    and "key_sign L priv texto_original pss_max SHA256 = Inr sg"
  shows "firma_rsa L initial =
    then_do (paso6_verificar L)
      (\<lambda>_. then_do (paso7_manipulacion L) (\<lambda>_. print Proceso_completado))
      \<lparr>private_key = Some priv, public_key = Some pk, message = Some texto_original,
       signature = Some sg, message_alterado = None,
       stdout = [Iniciando, Par_de_claves_generado, Mensaje_original texto_original,
                 Firma_creada (take 30 sg)],
       calls = [Generate_private_key 65537 2048, Public_key priv,
                Sign priv texto_original pss_max SHA256]\<rparr>"
  using assms
  by (simp add: firma_rsa_def initial_def print_def
      then_do_def [of "print Iniciando"] then_do_def [of "paso3_generar_claves L"]
      then_do_def [of paso4_crear_mensaje] then_do_def [of "paso5_firmar L"]
      paso3_generar_claves_eq paso4_crear_mensaje_eq paso5_firmar_eq)

lemma firma_rsa_not_generated:
  assumes "rsa_generate_private_key L 65537 2048 = Inl e"
  shows "firma_rsa L initial =
    (Inl e, initial\<lparr>stdout := [Iniciando], calls := [Generate_private_key 65537 2048]\<rparr>)"
  using assms
  by (simp add: firma_rsa_def initial_def print_def
      then_do_def [of "print Iniciando"] then_do_def [of "paso3_generar_claves L"]
      paso3_generar_claves_eq)

lemma firma_rsa_no_public_key:
  assumes "rsa_generate_private_key L 65537 2048 = Inr priv"
    and "key_public_key L priv = Inl e"
  shows "firma_rsa L initial =
    (Inl e, initial\<lparr>private_key := Some priv, stdout := [Iniciando],
       calls := [Generate_private_key 65537 2048, Public_key priv]\<rparr>)"
  using assms
  by (simp add: firma_rsa_def initial_def print_def
      then_do_def [of "print Iniciando"] then_do_def [of "paso3_generar_claves L"]
      paso3_generar_claves_eq)

lemma firma_rsa_not_signed:
  assumes "rsa_generate_private_key L 65537 2048 = Inr priv"
    and "key_public_key L priv = Inr pk"
    and "key_sign L priv texto_original pss_max SHA256 = Inl e"
  shows "firma_rsa L initial =
    (Inl e, \<lparr>private_key = Some priv, public_key = Some pk, message = Some texto_original,
       signature = None, message_alterado = None,
       stdout = [Iniciando, Par_de_claves_generado, Mensaje_original texto_original],
       calls = [Generate_private_key 65537 2048, Public_key priv,
                Sign priv texto_original pss_max SHA256]\<rparr>)"
  using assms
  by (simp add: firma_rsa_def initial_def print_def
      then_do_def [of "print Iniciando"] then_do_def [of "paso3_generar_claves L"]
      then_do_def [of paso4_crear_mensaje] then_do_def [of "paso5_firmar L"]
      paso3_generar_claves_eq paso4_crear_mensaje_eq paso5_firmar_eq)

text \<open>After the signature: the two verifications and the last line.\<close>

lemma firma_rsa_verified:
  assumes "rsa_generate_private_key L 65537 2048 = Inr priv"
    and "key_public_key L priv = Inr pk"
    and "key_sign L priv texto_original pss_max SHA256 = Inr sg"
    and "key_verify L pk sg texto_original pss_max SHA256 = r1"
    and "key_verify L pk sg texto_alterado pss_max SHA256 = r2"
    and "\<forall>e. r1 = Inl e \<longrightarrow> issubclass_Exception (class_of e)"
    and "\<forall>e. r2 = Inl e \<longrightarrow> issubclass_Exception (class_of e)"
  shows "firma_rsa L initial =
    (Inr (), \<lparr>private_key = Some priv, public_key = Some pk, message = Some texto_original,
       signature = Some sg, message_alterado = Some texto_alterado,
       stdout = [Iniciando, Par_de_claves_generado, Mensaje_original texto_original,
                 Firma_creada (take 30 sg)]
         @ (case r1 of Inr u \<Rightarrow> [Firma_verificada] | Inl e \<Rightarrow> [ERROR_firma_no_valida (str_of e)])
         @ [Intentando_alterado texto_alterado]
         @ (case r2 of Inr u \<Rightarrow> [Advertencia_firma_valida]
             | Inl e \<Rightarrow> [Alerta_firma_invalida, Error_especifico (str_of e)])
         @ [Proceso_completado],
       calls = [Generate_private_key 65537 2048, Public_key priv,
                Sign priv texto_original pss_max SHA256,
                Verify pk sg texto_original pss_max SHA256,
                Verify pk sg texto_alterado pss_max SHA256]\<rparr>)"
proof -
  note run = firma_rsa_signed [OF assms(1-3)]
  show ?thesis
  proof (cases r1)
    case (Inl e1)
    with assms(6) have c1: "issubclass_Exception (class_of e1)" by simp
    show ?thesis
    proof (cases r2)
      case (Inl e2)
      with assms(7) have c2: "issubclass_Exception (class_of e2)" by simp
      from assms(4,5) \<open>r1 = Inl e1\<close> \<open>r2 = Inl e2\<close> c1 c2 show ?thesis
        by (simp add: run then_do_def [of "paso6_verificar L"] then_do_def [of "paso7_manipulacion L"]
            paso6_verificar_eq paso7_manipulacion_eq verificar_alterado_eq print_def)
    next
      case (Inr u2)
      from assms(4,5) \<open>r1 = Inl e1\<close> \<open>r2 = Inr u2\<close> c1 show ?thesis
        by (simp add: run then_do_def [of "paso6_verificar L"] then_do_def [of "paso7_manipulacion L"]
            paso6_verificar_eq paso7_manipulacion_eq verificar_alterado_eq print_def)
    qed
  next
    case (Inr u1)
    show ?thesis
    proof (cases r2)
      case (Inl e2)
      with assms(7) have c2: "issubclass_Exception (class_of e2)" by simp
      from assms(4,5) \<open>r1 = Inr u1\<close> \<open>r2 = Inl e2\<close> c2 show ?thesis
        by (simp add: run then_do_def [of "paso6_verificar L"] then_do_def [of "paso7_manipulacion L"]
            paso6_verificar_eq paso7_manipulacion_eq verificar_alterado_eq print_def)
    next
      case (Inr u2)
      from assms(4,5) \<open>r1 = Inr u1\<close> \<open>r2 = Inr u2\<close> show ?thesis
        by (simp add: run then_do_def [of "paso6_verificar L"] then_do_def [of "paso7_manipulacion L"]
            paso6_verificar_eq paso7_manipulacion_eq verificar_alterado_eq print_def)
    qed
  qed
qed

lemma firma_rsa_first_verify_uncaught:
  assumes "rsa_generate_private_key L 65537 2048 = Inr priv"
    and "key_public_key L priv = Inr pk"
    and "key_sign L priv texto_original pss_max SHA256 = Inr sg"
    and "key_verify L pk sg texto_original pss_max SHA256 = Inl e"
    and "\<not> issubclass_Exception (class_of e)"
  shows "firma_rsa L initial =
    (Inl e, \<lparr>private_key = Some priv, public_key = Some pk, message = Some texto_original,
       signature = Some sg, message_alterado = None,
       stdout = [Iniciando, Par_de_claves_generado, Mensaje_original texto_original,
                 Firma_creada (take 30 sg)],
       calls = [Generate_private_key 65537 2048, Public_key priv,
                Sign priv texto_original pss_max SHA256,
                Verify pk sg texto_original pss_max SHA256]\<rparr>)"
  using assms(4,5)
  by (simp add: firma_rsa_signed [OF assms(1-3)] then_do_def [of "paso6_verificar L"]
      paso6_verificar_eq)

lemma firma_rsa_second_verify_uncaught:
  assumes "rsa_generate_private_key L 65537 2048 = Inr priv"
    and "key_public_key L priv = Inr pk"
    and "key_sign L priv texto_original pss_max SHA256 = Inr sg"
    and "key_verify L pk sg texto_original pss_max SHA256 = r1"
    and "\<forall>e. r1 = Inl e \<longrightarrow> issubclass_Exception (class_of e)"
    and "key_verify L pk sg texto_alterado pss_max SHA256 = Inl e"
    and "\<not> issubclass_Exception (class_of e)"
  shows "firma_rsa L initial =
    (Inl e, \<lparr>private_key = Some priv, public_key = Some pk, message = Some texto_original,
       signature = Some sg, message_alterado = Some texto_alterado,
       stdout = [Iniciando, Par_de_claves_generado, Mensaje_original texto_original,
                 Firma_creada (take 30 sg)]
         @ (case r1 of Inr u \<Rightarrow> [Firma_verificada] | Inl e \<Rightarrow> [ERROR_firma_no_valida (str_of e)])
         @ [Intentando_alterado texto_alterado],
       calls = [Generate_private_key 65537 2048, Public_key priv,
                Sign priv texto_original pss_max SHA256,
                Verify pk sg texto_original pss_max SHA256,
                Verify pk sg texto_alterado pss_max SHA256]\<rparr>)"
proof (cases r1)
  case (Inl e1)
  with assms(5) have "issubclass_Exception (class_of e1)" by simp
  with assms(4,6,7) Inl show ?thesis
    by (simp add: firma_rsa_signed [OF assms(1-3)] then_do_def [of "paso6_verificar L"]
        then_do_def [of "paso7_manipulacion L"]
        paso6_verificar_eq paso7_manipulacion_eq verificar_alterado_eq)
next
  case (Inr u1)
  with assms(4,6,7) show ?thesis
    by (simp add: firma_rsa_signed [OF assms(1-3)] then_do_def [of "paso6_verificar L"]
        then_do_def [of "paso7_manipulacion L"]
        paso6_verificar_eq paso7_manipulacion_eq verificar_alterado_eq)
qed

section \<open>Properties of the script\<close>

subsection \<open>Verification failures are reported and the run completes\<close>

text \<open>
  Claim C4, as the specification words it, says that the run always terminates normally
  after printing the completion line, in every case and regardless of both verification
  outcomes. The handlers are \<^verbatim>\<open>except Exception\<close>, so that fails for an outcome outside
  \<^verbatim>\<open>Exception\<close>. When the verification of the original message returns and the one of
  the altered message is interrupted from the keyboard, the \<^verbatim>\<open>KeyboardInterrupt\<close> leaves
  the script uncaught: six lines are printed, the last of them the announcement of the
  second verification, and \<open>Proceso_completado\<close> is not among them.
\<close>

theorem keyboard_interrupt_ends_the_run_before_completion:
  "fst (firma_rsa biblioteca_interrumpida_al_final initial) = Inl (Raised KeyboardInterrupt [])
   \<and> stdout (snd (firma_rsa biblioteca_interrumpida_al_final initial)) =
        [Iniciando, Par_de_claves_generado, Mensaje_original texto_original,
         Firma_creada (replicate 30 (CHR ''s'')), Firma_verificada,
         Intentando_alterado texto_alterado]
   \<and> Proceso_completado \<notin> set (stdout (snd (firma_rsa biblioteca_interrumpida_al_final initial)))
   \<and> fst (firma_rsa biblioteca_interrumpida_al_final initial) \<noteq> Inr ()"
proof -
  have g: "rsa_generate_private_key biblioteca_interrumpida_al_final 65537 2048 = Inr 7"
    and p: "key_public_key biblioteca_interrumpida_al_final 7 = Inr 8"
    and s: "key_sign biblioteca_interrumpida_al_final 7 texto_original pss_max SHA256
              = Inr (replicate 256 (CHR ''s''))"
    and v1: "key_verify biblioteca_interrumpida_al_final 8 (replicate 256 (CHR ''s''))
              texto_original pss_max SHA256 = Inr ()"
    and v2: "key_verify biblioteca_interrumpida_al_final 8 (replicate 256 (CHR ''s''))
              texto_alterado pss_max SHA256 = Inl (Raised KeyboardInterrupt [])"
    by (simp_all add: biblioteca_interrumpida_al_final_def biblioteca_demo_def)
  have c1: "\<forall>e. Inr () = (Inl e :: raised + unit) \<longrightarrow> issubclass_Exception (class_of e)"
    by simp
  have c2: "\<not> issubclass_Exception (class_of (Raised KeyboardInterrupt []))"
    by simp
  from firma_rsa_second_verify_uncaught [OF g p s v1 c1 v2 c2] show ?thesis
    by simp
qed

text \<open>
  Claim C4, amended. Once the key pair and the signature exist, whenever each of the two
  verification calls returns or raises an object whose class derives from \<^verbatim>\<open>Exception\<close>,
  the exception is caught locally and printed, and the run terminates normally. An exception
  of the first call becomes the line \<open>ERROR_firma_no_valida\<close> carrying its text, so a
  failure there is reported and not fatal; one of the second call becomes
  \<open>Alerta_firma_invalida\<close> followed by \<open>Error_especifico\<close>; and in all four combinations
  of these outcomes the last line printed is \<open>Proceso_completado\<close>.
\<close>

theorem verification_failures_reported_and_run_completes:
  assumes "rsa_generate_private_key L 65537 2048 = Inr priv"
    and "key_public_key L priv = Inr pk"
    and "key_sign L priv texto_original pss_max SHA256 = Inr sg"
    and "key_verify L pk sg texto_original pss_max SHA256 = r1"
    and "key_verify L pk sg texto_alterado pss_max SHA256 = r2"
    and "\<forall>e. r1 = Inl e \<longrightarrow> issubclass_Exception (class_of e)"
    and "\<forall>e. r2 = Inl e \<longrightarrow> issubclass_Exception (class_of e)"
  shows "fst (firma_rsa L initial) = Inr ()
    \<and> stdout (snd (firma_rsa L initial)) =
        [Iniciando, Par_de_claves_generado, Mensaje_original texto_original,
         Firma_creada (take 30 sg)]
        @ (case r1 of Inr u \<Rightarrow> [Firma_verificada] | Inl e \<Rightarrow> [ERROR_firma_no_valida (str_of e)])
        @ [Intentando_alterado texto_alterado]
        @ (case r2 of Inr u \<Rightarrow> [Advertencia_firma_valida]
            | Inl e \<Rightarrow> [Alerta_firma_invalida, Error_especifico (str_of e)])
        @ [Proceso_completado]
    \<and> last (stdout (snd (firma_rsa L initial))) = Proceso_completado"
  by (simp add: firma_rsa_verified [OF assms])

text \<open>
  On the library that rejects every signature both verifications fail, both failures are
  printed, and the run still ends with the completion line.
\<close>

theorem verification_failures_reported_and_run_completes_witness:
  "rsa_generate_private_key biblioteca_rechaza 65537 2048 = Inr 7
   \<and> key_public_key biblioteca_rechaza 7 = Inr 8
   \<and> key_sign biblioteca_rechaza 7 texto_original pss_max SHA256 = Inr (replicate 256 (CHR ''s''))
   \<and> key_verify biblioteca_rechaza 8 (replicate 256 (CHR ''s'')) texto_original pss_max SHA256
       = Inl (Raised InvalidSignature [])
   \<and> key_verify biblioteca_rechaza 8 (replicate 256 (CHR ''s'')) texto_alterado pss_max SHA256
       = Inl (Raised InvalidSignature [])
   \<and> issubclass_Exception (class_of (Raised InvalidSignature []))
   \<and> fst (firma_rsa biblioteca_rechaza initial) = Inr ()
   \<and> stdout (snd (firma_rsa biblioteca_rechaza initial)) =
        [Iniciando, Par_de_claves_generado, Mensaje_original texto_original,
         Firma_creada (replicate 30 (CHR ''s'')), ERROR_firma_no_valida [],
         Intentando_alterado texto_alterado, Alerta_firma_invalida, Error_especifico [],
         Proceso_completado]
   \<and> last (stdout (snd (firma_rsa biblioteca_rechaza initial))) = Proceso_completado"
proof -
  have g: "rsa_generate_private_key biblioteca_rechaza 65537 2048 = Inr 7"
    and p: "key_public_key biblioteca_rechaza 7 = Inr 8"
    and s: "key_sign biblioteca_rechaza 7 texto_original pss_max SHA256
              = Inr (replicate 256 (CHR ''s''))"
    and v1: "key_verify biblioteca_rechaza 8 (replicate 256 (CHR ''s'')) texto_original pss_max
              SHA256 = Inl (Raised InvalidSignature [])"
    and v2: "key_verify biblioteca_rechaza 8 (replicate 256 (CHR ''s'')) texto_alterado pss_max
              SHA256 = Inl (Raised InvalidSignature [])"
    by (simp_all add: biblioteca_rechaza_def biblioteca_demo_def)
  have c: "\<forall>e. Inl (Raised InvalidSignature []) = (Inl e :: raised + unit)
             \<longrightarrow> issubclass_Exception (class_of e)"
    by simp
  from verification_failures_reported_and_run_completes [OF g p s v1 v2 c c] g p s v1 v2
  show ?thesis by simp
qed

subsection \<open>One key pair, generated once\<close>

text \<open>
  Claim C5. In every run, whatever the library does, the key generator is called exactly
  once, with public exponent 65537 and key size 2048, and that call is the first library
  call. Every signing call uses the private key that call returned. Every verification call
  uses the public key derived from that same private key, and checks the signature which
  that private key produced for the original message under the same padding and hash.
\<close>

theorem one_key_pair_for_the_whole_run:
  "filter is_generate (calls (snd (firma_rsa L initial))) = [Generate_private_key 65537 2048]
   \<and> take 1 (calls (snd (firma_rsa L initial))) = [Generate_private_key 65537 2048]
   \<and> (\<forall>k m p h. Sign k m p h \<in> set (calls (snd (firma_rsa L initial)))
         \<longrightarrow> rsa_generate_private_key L 65537 2048 = Inr k)
   \<and> (\<forall>pk sg m p h. Verify pk sg m p h \<in> set (calls (snd (firma_rsa L initial)))
         \<longrightarrow> (\<exists>k. rsa_generate_private_key L 65537 2048 = Inr k
                \<and> key_public_key L k = Inr pk
                \<and> key_sign L k texto_original p h = Inr sg
                \<and> Sign k texto_original p h \<in> set (calls (snd (firma_rsa L initial)))))"
proof (cases "rsa_generate_private_key L 65537 2048")
  case (Inl e)
  from firma_rsa_not_generated [OF Inl] show ?thesis
    by (simp add: initial_def)
next
  case gen: (Inr priv)
  show ?thesis
  proof (cases "key_public_key L priv")
    case (Inl e)
    from firma_rsa_no_public_key [OF gen Inl] gen show ?thesis
      by (simp add: initial_def)
  next
    case pub: (Inr pk)
    show ?thesis
    proof (cases "key_sign L priv texto_original pss_max SHA256")
      case (Inl e)
      from firma_rsa_not_signed [OF gen pub Inl] gen show ?thesis
        by simp
    next
      case sign: (Inr sg)
      define r1 where "r1 = key_verify L pk sg texto_original pss_max SHA256"
      define r2 where "r2 = key_verify L pk sg texto_alterado pss_max SHA256"
      have "calls (snd (firma_rsa L initial)) =
              [Generate_private_key 65537 2048, Public_key priv,
               Sign priv texto_original pss_max SHA256,
               Verify pk sg texto_original pss_max SHA256]
          \<or> calls (snd (firma_rsa L initial)) =
              [Generate_private_key 65537 2048, Public_key priv,
               Sign priv texto_original pss_max SHA256,
               Verify pk sg texto_original pss_max SHA256,
               Verify pk sg texto_alterado pss_max SHA256]"
      proof (cases "\<forall>e. r1 = Inl e \<longrightarrow> issubclass_Exception (class_of e)")
        case c1: True
        show ?thesis
        proof (cases "\<forall>e. r2 = Inl e \<longrightarrow> issubclass_Exception (class_of e)")
          case True
          from firma_rsa_verified [OF gen pub sign r1_def [symmetric] r2_def [symmetric] c1 True]
          show ?thesis by simp
        next
          case False
          then obtain e where "r2 = Inl e" and "\<not> issubclass_Exception (class_of e)" by blast
          with firma_rsa_second_verify_uncaught [OF gen pub sign r1_def [symmetric] c1, of e]
          show ?thesis by (simp add: r2_def)
        qed
      next
        case False
        then obtain e where "r1 = Inl e" and "\<not> issubclass_Exception (class_of e)" by blast
        with firma_rsa_first_verify_uncaught [OF gen pub sign, of e]
        show ?thesis by (simp add: r1_def)
      qed
      with gen pub sign show ?thesis
        by (elim disjE) simp_all
    qed
  qed
qed

text \<open>On the demonstration library the run signs with key 7 and verifies twice with key 8.\<close>

theorem one_key_pair_for_the_whole_run_witness:
  "Sign 7 texto_original pss_max SHA256 \<in> set (calls (snd (firma_rsa biblioteca_demo initial)))
   \<and> Verify 8 (replicate 256 (CHR ''s'')) texto_original pss_max SHA256
        \<in> set (calls (snd (firma_rsa biblioteca_demo initial)))
   \<and> Verify 8 (replicate 256 (CHR ''s'')) texto_alterado pss_max SHA256
        \<in> set (calls (snd (firma_rsa biblioteca_demo initial)))
   \<and> rsa_generate_private_key biblioteca_demo 65537 2048 = Inr 7
   \<and> key_public_key biblioteca_demo 7 = Inr 8
   \<and> key_sign biblioteca_demo 7 texto_original pss_max SHA256 = Inr (replicate 256 (CHR ''s''))
   \<and> filter is_generate (calls (snd (firma_rsa biblioteca_demo initial)))
        = [Generate_private_key 65537 2048]"
proof -
  have g: "rsa_generate_private_key biblioteca_demo 65537 2048 = Inr 7"
    and p: "key_public_key biblioteca_demo 7 = Inr 8"
    and s: "key_sign biblioteca_demo 7 texto_original pss_max SHA256
              = Inr (replicate 256 (CHR ''s''))"
    and v1: "key_verify biblioteca_demo 8 (replicate 256 (CHR ''s'')) texto_original pss_max
              SHA256 = Inr ()"
    and v2: "key_verify biblioteca_demo 8 (replicate 256 (CHR ''s'')) texto_alterado pss_max
              SHA256 = Inl (Raised InvalidSignature [])"
    by (simp_all add: biblioteca_demo_def)
  have c1: "\<forall>e. Inr () = (Inl e :: raised + unit) \<longrightarrow> issubclass_Exception (class_of e)"
    and c2: "\<forall>e. Inl (Raised InvalidSignature []) = (Inl e :: raised + unit)
               \<longrightarrow> issubclass_Exception (class_of e)"
    by simp_all
  have log: "calls (snd (firma_rsa biblioteca_demo initial)) =
     [Generate_private_key 65537 2048, Public_key 7, Sign 7 texto_original pss_max SHA256,
      Verify 8 (replicate 256 (CHR ''s'')) texto_original pss_max SHA256,
      Verify 8 (replicate 256 (CHR ''s'')) texto_alterado pss_max SHA256]"
    by (simp add: firma_rsa_verified [OF g p s v1 v2 c1 c2])
  from one_key_pair_for_the_whole_run [of biblioteca_demo] g p s show ?thesis
    by (simp add: log)
qed

subsection \<open>Which raised objects the handlers catch\<close>

text \<open>
  Claim C9, as the specification words it, says that the \<^verbatim>\<open>except\<close> clause catches the
  broadest exception class, so that any failure of a verification takes the diagnostic
  branch. The clause names \<^verbatim>\<open>Exception\<close>; \<^verbatim>\<open>BaseException\<close> is broader. When
  \<^verbatim>\<open>verify\<close> is interrupted from the keyboard, the first verification takes no diagnostic
  branch: the \<^verbatim>\<open>KeyboardInterrupt\<close> leaves the script uncaught after four lines of output,
  none of them a diagnostic, and the completion line is never printed.
\<close>

theorem keyboard_interrupt_skips_the_diagnostic_branch:
  "fst (firma_rsa biblioteca_interrumpida initial) = Inl (Raised KeyboardInterrupt [])
   \<and> stdout (snd (firma_rsa biblioteca_interrumpida initial)) =
        [Iniciando, Par_de_claves_generado, Mensaje_original texto_original,
         Firma_creada (replicate 30 (CHR ''s''))]"
proof -
  have g: "rsa_generate_private_key biblioteca_interrumpida 65537 2048 = Inr 7"
    and p: "key_public_key biblioteca_interrumpida 7 = Inr 8"
    and s: "key_sign biblioteca_interrumpida 7 texto_original pss_max SHA256
              = Inr (replicate 256 (CHR ''s''))"
    and v: "key_verify biblioteca_interrumpida 8 (replicate 256 (CHR ''s'')) texto_original
              pss_max SHA256 = Inl (Raised KeyboardInterrupt [])"
    by (simp_all add: biblioteca_interrumpida_def biblioteca_demo_def)
  have "\<not> issubclass_Exception (class_of (Raised KeyboardInterrupt []))"
    by simp
  from firma_rsa_first_verify_uncaught [OF g p s v this] show ?thesis
    by simp
qed

text \<open>
  Claim C9, amended. In each verification step every raised object whose class derives from
  \<^verbatim>\<open>Exception\<close> takes the same branch, that step's diagnostic, and the branch uses the
  object only through its text: an invalid signature and any other such failure are not told
  apart. A raised object outside \<^verbatim>\<open>Exception\<close> is not caught and leaves the step as it
  came. Each step is stated on its own, for any state in which the names it reads are bound.
\<close>

theorem every_Exception_takes_the_same_branch:
  "(public_key s = Some pk \<longrightarrow> signature s = Some sg \<longrightarrow> message s = Some m
      \<longrightarrow> key_verify L pk sg m pss_max SHA256 = Inl e
      \<longrightarrow> paso6_verificar L s =
      (if issubclass_Exception (class_of e)
       then (Inr (), s\<lparr>stdout := stdout s @ [ERROR_firma_no_valida (str_of e)],
               calls := calls s @ [Verify pk sg m pss_max SHA256]\<rparr>)
       else (Inl e, s\<lparr>calls := calls s @ [Verify pk sg m pss_max SHA256]\<rparr>)))
    \<and> (public_key s = Some pk \<longrightarrow> signature s = Some sg \<longrightarrow> message_alterado s = Some m'
      \<longrightarrow> key_verify L pk sg m' pss_max SHA256 = Inl e'
      \<longrightarrow> verificar_alterado L s =
      (if issubclass_Exception (class_of e')
       then (Inr (), s\<lparr>stdout := stdout s @
               [Alerta_firma_invalida, Error_especifico (str_of e')],
               calls := calls s @ [Verify pk sg m' pss_max SHA256]\<rparr>)
       else (Inl e', s\<lparr>calls := calls s @ [Verify pk sg m' pss_max SHA256]\<rparr>)))"
proof (intro conjI impI)
  assume b: "public_key s = Some pk" "signature s = Some sg" "message s = Some m"
    and v: "key_verify L pk sg m pss_max SHA256 = Inl e"
  from v show "paso6_verificar L s =
      (if issubclass_Exception (class_of e)
       then (Inr (), s\<lparr>stdout := stdout s @ [ERROR_firma_no_valida (str_of e)],
               calls := calls s @ [Verify pk sg m pss_max SHA256]\<rparr>)
       else (Inl e, s\<lparr>calls := calls s @ [Verify pk sg m pss_max SHA256]\<rparr>))"
    by (simp add: paso6_verificar_eq [OF b])
next
  assume b: "public_key s = Some pk" "signature s = Some sg" "message_alterado s = Some m'"
    and v: "key_verify L pk sg m' pss_max SHA256 = Inl e'"
  from v show "verificar_alterado L s =
      (if issubclass_Exception (class_of e')
       then (Inr (), s\<lparr>stdout := stdout s @
               [Alerta_firma_invalida, Error_especifico (str_of e')],
               calls := calls s @ [Verify pk sg m' pss_max SHA256]\<rparr>)
       else (Inl e', s\<lparr>calls := calls s @ [Verify pk sg m' pss_max SHA256]\<rparr>))"
    by (simp add: verificar_alterado_eq [OF b])
qed

text \<open>An \<^verbatim>\<open>InvalidSignature\<close> with empty text, in both steps.\<close>

theorem every_Exception_takes_the_same_branch_witness:
  "public_key estado_firmado = Some 8 \<and> signature estado_firmado = Some ''firma''
   \<and> message estado_firmado = Some ''hola'' \<and> message_alterado estado_firmado = Some ''adios''
   \<and> key_verify biblioteca_rechaza 8 ''firma'' ''hola'' pss_max SHA256
        = Inl (Raised InvalidSignature [])
   \<and> key_verify biblioteca_rechaza 8 ''firma'' ''adios'' pss_max SHA256
        = Inl (Raised InvalidSignature [])
   \<and> paso6_verificar biblioteca_rechaza estado_firmado =
        (Inr (), estado_firmado\<lparr>stdout := [ERROR_firma_no_valida []],
           calls := [Verify 8 ''firma'' ''hola'' pss_max SHA256]\<rparr>)
   \<and> verificar_alterado biblioteca_rechaza estado_firmado =
        (Inr (), estado_firmado\<lparr>stdout := [Alerta_firma_invalida, Error_especifico []],
           calls := [Verify 8 ''firma'' ''adios'' pss_max SHA256]\<rparr>)"
proof -
  have b: "public_key estado_firmado = Some 8" "signature estado_firmado = Some ''firma''"
    "message estado_firmado = Some ''hola''" "message_alterado estado_firmado = Some ''adios''"
    by (simp_all add: estado_firmado_def)
  have v: "key_verify biblioteca_rechaza 8 ''firma'' ''hola'' pss_max SHA256
             = Inl (Raised InvalidSignature [])"
    "key_verify biblioteca_rechaza 8 ''firma'' ''adios'' pss_max SHA256
             = Inl (Raised InvalidSignature [])"
    by (simp_all add: biblioteca_rechaza_def)
  have o: "stdout estado_firmado = []" "calls estado_firmado = []"
    by (simp_all add: estado_firmado_def)
  from every_Exception_takes_the_same_branch
    [of estado_firmado 8 "''firma''" "''hola''" biblioteca_rechaza "Raised InvalidSignature []"
      "''adios''" "Raised InvalidSignature []"]
    b v o
  show ?thesis by simp
qed

subsection \<open>The signature preview\<close>

text \<open>
  Claim C10. When the signing call returns a signature of 256 bytes, the fourth line
  printed, right after the signing, shows \<^verbatim>\<open>signature[:30]\<close>: exactly the first 30 bytes,
  a strict prefix of the signature and so never the whole of it. No other line of the run
  shows signature bytes.
\<close>

theorem signature_preview_is_the_first_30_bytes:
  assumes "rsa_generate_private_key L 65537 2048 = Inr priv"
    and "key_public_key L priv = Inr pk"
    and "key_sign L priv texto_original pss_max SHA256 = Inr sg"
    and "length sg = 256"
  shows "take 4 (stdout (snd (firma_rsa L initial))) =
       [Iniciando, Par_de_claves_generado, Mensaje_original texto_original,
        Firma_creada (take 30 sg)]
    \<and> (\<forall>p. Firma_creada p \<in> set (stdout (snd (firma_rsa L initial))) \<longrightarrow> p = take 30 sg)
    \<and> length (take 30 sg) = 30
    \<and> strict_prefix (take 30 sg) sg"
proof -
  define r1 where "r1 = key_verify L pk sg texto_original pss_max SHA256"
  define r2 where "r2 = key_verify L pk sg texto_alterado pss_max SHA256"
  note sgn = assms(1-3)
  have out: "take 4 (stdout (snd (firma_rsa L initial))) =
       [Iniciando, Par_de_claves_generado, Mensaje_original texto_original,
        Firma_creada (take 30 sg)]
    \<and> (\<forall>p. Firma_creada p \<in> set (stdout (snd (firma_rsa L initial))) \<longrightarrow> p = take 30 sg)"
  proof (cases "\<forall>e. r1 = Inl e \<longrightarrow> issubclass_Exception (class_of e)")
    case c1: True
    show ?thesis
    proof (cases "\<forall>e. r2 = Inl e \<longrightarrow> issubclass_Exception (class_of e)")
      case True
      from firma_rsa_verified [OF sgn r1_def [symmetric] r2_def [symmetric] c1 True]
      show ?thesis by (auto split: sum.splits)
    next
      case False
      then obtain e where "r2 = Inl e" and "\<not> issubclass_Exception (class_of e)" by blast
      with firma_rsa_second_verify_uncaught [OF sgn r1_def [symmetric] c1, of e]
      show ?thesis by (auto simp: r2_def split: sum.splits)
    qed
  next
    case False
    then obtain e where "r1 = Inl e" and "\<not> issubclass_Exception (class_of e)" by blast
    with firma_rsa_first_verify_uncaught [OF sgn, of e]
    show ?thesis by (simp add: r1_def)
  qed
  from assms(4) have len: "length (take 30 sg) = 30"
    by simp
  with assms(4) have "take 30 sg \<noteq> sg"
    by auto
  then have "strict_prefix (take 30 sg) sg"
    by (simp add: strict_prefix_def take_is_prefix)
  with out len show ?thesis by blast
qed

text \<open>On the demonstration library the preview is 30 of the 256 bytes.\<close>

theorem signature_preview_is_the_first_30_bytes_witness:
  "rsa_generate_private_key biblioteca_demo 65537 2048 = Inr 7
   \<and> key_public_key biblioteca_demo 7 = Inr 8
   \<and> key_sign biblioteca_demo 7 texto_original pss_max SHA256 = Inr (replicate 256 (CHR ''s''))
   \<and> length (replicate 256 (CHR ''s'')) = 256
   \<and> take 4 (stdout (snd (firma_rsa biblioteca_demo initial))) =
       [Iniciando, Par_de_claves_generado, Mensaje_original texto_original,
        Firma_creada (replicate 30 (CHR ''s''))]
   \<and> strict_prefix (replicate 30 (CHR ''s'')) (replicate 256 (CHR ''s''))"
proof -
  have g: "rsa_generate_private_key biblioteca_demo 65537 2048 = Inr 7"
    and p: "key_public_key biblioteca_demo 7 = Inr 8"
    and s: "key_sign biblioteca_demo 7 texto_original pss_max SHA256
              = Inr (replicate 256 (CHR ''s''))"
    by (simp_all add: biblioteca_demo_def)
  have l: "length (replicate 256 (CHR ''s'')) = 256"
    by simp
  from signature_preview_is_the_first_30_bytes [OF g p s l] g p s show ?thesis
    by simp
qed

end
